theory Spec2Isabelle
  imports Main
begin

section \<open>Constants of auth.go\<close>

text \<open>The two endpoints of the Spotify Accounts Service (auth.go, lines 25-31).\<close>

definition AuthURL :: string where
  "AuthURL = ''https://accounts.spotify.com/authorize''"

definition TokenURL :: string where
  "TokenURL = ''https://accounts.spotify.com/api/token''"

text \<open>The scope strings (auth.go, lines 36-67).\<close>

definition ScopePlaylistReadPrivate :: string where
  "ScopePlaylistReadPrivate = ''playlist-read-private''"

definition ScopePlaylistModifyPublic :: string where
  "ScopePlaylistModifyPublic = ''playlist-modify-public''"

definition ScopePlaylistModifyPrivate :: string where
  "ScopePlaylistModifyPrivate = ''playlist-modify-private''"

definition ScopePlaylistReadCollaborative :: string where
  "ScopePlaylistReadCollaborative = ''playlist-read-collaborative''"

definition ScopeUserFollowModify :: string where
  "ScopeUserFollowModify = ''user-follow-modify''"

definition ScopeUserFollowRead :: string where
  "ScopeUserFollowRead = ''user-follow-read''"

definition ScopeUserLibraryModify :: string where
  "ScopeUserLibraryModify = ''user-library-modify''"

definition ScopeUserLibraryRead :: string where
  "ScopeUserLibraryRead = ''user-library-read''"

definition ScopeUserReadPrivate :: string where
  "ScopeUserReadPrivate = ''user-read-private''"

definition ScopeUserReadEmail :: string where
  "ScopeUserReadEmail = ''user-read-email''"

definition ScopeUserReadBirthdate :: string where
  "ScopeUserReadBirthdate = ''user-read-birthdate''"

section \<open>Data of the libraries that auth.go uses\<close>

text \<open>
  \<^verbatim>\<open>oauth2.Endpoint\<close> and \<open>oauth2.Config\<close>, with the fields that
  \<open>NewAuthenticator\<close> fills in, in the order it writes them.
\<close>

record Endpoint =
  Endpoint_AuthURL :: string
  Endpoint_TokenURL :: string

record Config =
  ClientID :: string
  ClientSecret :: string
  RedirectURL :: string
  Scopes :: "string list"
  Endpoint :: Endpoint

text \<open>
  A Go \<open>error\<close> value: one made by \<open>errors.New\<close> from a message, or any other
  error value, whose type \<open>'x\<close> belongs to the library that made it.
\<close>

datatype 'x error = New string | Foreign 'x

text \<open>
  \<^verbatim>\<open>url.Values\<close> is \<open>map[string][]string\<close>. \<open>Get\<close> reads the first value listed
  for a key, and the empty string when the key is absent or lists no value.
\<close>

type_synonym Values = "string \<rightharpoonup> string list"

definition Get :: "Values \<Rightarrow> string \<Rightarrow> string" where
  "Get v key = (case v key of None \<Rightarrow> [] | Some [] \<Rightarrow> [] | Some (x # _) \<Rightarrow> x)"

text \<open>
  Of the \<open>*http.Request\<close> that \<open>Token\<close> receives, only \<open>r.URL.Query()\<close> is read:
  the request is the parsed query of its URL.
\<close>

record Request =
  Query :: Values

text \<open>
  The process environment; \<open>os.Getenv\<close> gives the empty string for a variable
  that is not set.
\<close>

type_synonym Environ = "string \<rightharpoonup> string"

definition Getenv :: "Environ \<Rightarrow> string \<Rightarrow> string" where
  "Getenv env key = (case env key of None \<Rightarrow> [] | Some v \<Rightarrow> v)"

subsection \<open>The token exchange and the network\<close>

text \<open>
  \<^verbatim>\<open>oauth2.Config.Exchange\<close> is the one operation of auth.go that talks to the
  provider. Its code belongs to the oauth2 library, so the round trip is a
  parameter \<open>post\<close>: from the configuration, the authorization code and the state
  \<open>'w\<close> of the outside world it gives the library's result (an error or a token
  of type \<open>'tok\<close>) and the new state of the world. The context argument of the
  source is always \<open>oauth2.NoContext\<close> and is left out.

  The network is the outside world together with the log of the exchanges that
  were requested, each with the configuration and the code it was called with:
  this is the call counter of a network stub. \<open>Config_Exchange\<close> is a call of the
  library's \<open>Exchange\<close> on that network.
\<close>

record 'w Network =
  requests :: "(Config \<times> string) list"
  world :: 'w

type_synonym ('w, 'x, 'tok) round_trip =
  "Config \<Rightarrow> string \<Rightarrow> 'w \<Rightarrow> ('x error + 'tok) \<times> 'w"

definition Config_Exchange ::
  "('w, 'x, 'tok) round_trip \<Rightarrow> Config \<Rightarrow> string \<Rightarrow> 'w Network
     \<Rightarrow> ('x error + 'tok) \<times> 'w Network" where
  "Config_Exchange post c code net =
     (case post c code (world net) of
        (res, w) \<Rightarrow> (res, \<lparr>requests = requests net @ [(c, code)], world = w\<rparr>))"

section \<open>The Authenticator (auth.go, lines 82-149)\<close>

text \<open>
  The struct holds a pointer to its \<open>oauth2.Config\<close>. The source asks that an
  Authenticator is always made by \<open>NewAuthenticator\<close>, so the pointer is never
  nil, and no property below is about two Authenticator values that share one
  configuration: the configuration is held by value, and \<open>SetAuthInfo\<close>, which
  writes through the pointer, returns the updated Authenticator.
\<close>

record Authenticator =
  config :: Config

definition NewAuthenticator :: "Environ \<Rightarrow> string \<Rightarrow> string list \<Rightarrow> Authenticator" where
  "NewAuthenticator env redirectURL scopes =
     \<lparr>config =
        \<lparr>ClientID = Getenv env ''SPOTIFY_ID'',
         ClientSecret = Getenv env ''SPOTIFY_SECRET'',
         RedirectURL = redirectURL,
         Scopes = scopes,
         Endpoint = \<lparr>Endpoint_AuthURL = AuthURL, Endpoint_TokenURL = TokenURL\<rparr>\<rparr>\<rparr>"

definition SetAuthInfo :: "Authenticator \<Rightarrow> string \<Rightarrow> string \<Rightarrow> Authenticator" where
  "SetAuthInfo a clientID secretKey =
     a\<lparr>config := (config a)\<lparr>ClientID := clientID, ClientSecret := secretKey\<rparr>\<rparr>"

definition Token ::
  "('w, 'x, 'tok) round_trip \<Rightarrow> Authenticator \<Rightarrow> string \<Rightarrow> Request \<Rightarrow> 'w Network
     \<Rightarrow> ('x error + 'tok) \<times> 'w Network" where
  "Token post a state r net =
     (let values = Query r;
          e = Get values ''error''
      in if e \<noteq> [] then (Inl (New (''spotify: auth failed - '' @ e)), net)
         else
           let code = Get values ''code''
           in if code = [] then (Inl (New ''spotify: didn't get access code''), net)
              else
                let actualState = Get values ''state''
                in if actualState \<noteq> state
                   then (Inl (New ''spotify: redirect state parameter doesn't match''), net)
                   else Config_Exchange post (config a) code net)"

definition Exchange ::
  "('w, 'x, 'tok) round_trip \<Rightarrow> Authenticator \<Rightarrow> string \<Rightarrow> 'w Network
     \<Rightarrow> ('x error + 'tok) \<times> 'w Network" where
  "Exchange post a code net = Config_Exchange post (config a) code net"

text \<open>
  The method \<open>AuthURL\<close> of the Authenticator shares its name with the constant
  \<open>AuthURL\<close>, so it is \<open>Authenticator_AuthURL\<close> here. It returns what
  \<open>oauth2.Config.AuthCodeURL\<close> makes of the configuration and the state.
\<close>

record URL =
  url_endpoint :: string
  url_query :: "(string \<times> string) list"

fun Join :: "string list \<Rightarrow> string \<Rightarrow> string" where
  "Join [] sep = []"
| "Join [x] sep = x"
| "Join (x # y # ys) sep = x @ sep @ Join (y # ys) sep"

text \<open>
  Modelled from the spec: \<open>oauth2.Config.AuthCodeURL\<close>, a function of the oauth2
  library whose code is not in the repository. The specification has it format
  "the fixed authorization endpoint with client identifier, redirect URL,
  requested scopes, and the caller-supplied opaque state token as query
  parameters", and its example names the parameters \<open>redirect_uri\<close>, \<open>scope\<close>,
  \<open>state\<close> and \<open>client_id\<close>. The URL is kept as the endpoint and the list of its
  query parameters, before any escaping; the scopes are joined by single
  spaces, the delimiter of RFC 6749 (section 3.3).
\<close>

definition Config_AuthCodeURL :: "Config \<Rightarrow> string \<Rightarrow> URL" where
  "Config_AuthCodeURL c state =
     \<lparr>url_endpoint = Endpoint_AuthURL (Endpoint c),
      url_query =
        [(''redirect_uri'', RedirectURL c),
         (''scope'', Join (Scopes c) '' ''),
         (''state'', state),
         (''client_id'', ClientID c)]\<rparr>"

definition Authenticator_AuthURL :: "Authenticator \<Rightarrow> string \<Rightarrow> URL" where
  "Authenticator_AuthURL a state = Config_AuthCodeURL (config a) state"

text \<open>
  Modelled from the spec: the effect of \<open>oauth2.Config.AuthCodeURL\<close> on the
  network, which the library's code, not in the repository, decides. The
  specification gives it "no network call", and the method makes no other
  call: as a step on the network, in the form of \<open>Token\<close> and \<open>Exchange\<close>,
  \<open>AuthURL\<close> returns its URL and the network as it was.
\<close>

definition AuthURL_call :: "Authenticator \<Rightarrow> string \<Rightarrow> 'w Network \<Rightarrow> URL \<times> 'w Network" where
  "AuthURL_call a state net = (Authenticator_AuthURL a state, net)"

text \<open>
  Every Authenticator that \<open>NewAuthenticator\<close> makes has the two fixed endpoints,
  and \<open>SetAuthInfo\<close> keeps them.
\<close>

definition fixed_endpoints :: "Authenticator \<Rightarrow> bool" where
  "fixed_endpoints a \<longleftrightarrow>
     Endpoint_AuthURL (Endpoint (config a)) = AuthURL
     \<and> Endpoint_TokenURL (Endpoint (config a)) = TokenURL"

section \<open>The algorithm of CompleteAuth in the words of the specification\<close>

text \<open>
  The specification names three failures ahead of the exchange and lists their
  checks in order, "short-circuiting on the first failure". \<open>CompleteAuth\<close> is
  written from that list: the checks, each on its own, in a list in the
  specification's order, and the first failure of the list decides; only when
  there is none is the code exchanged. \<open>failure_error\<close> gives the error value
  with which the source reports each failure.
\<close>

datatype failure = AuthorizationDenied string | MissingCode | StateMismatch

definition check_error :: "Values \<Rightarrow> failure option" where
  "check_error params =
     (if Get params ''error'' = [] then None
      else Some (AuthorizationDenied (Get params ''error'')))"

definition check_code :: "Values \<Rightarrow> failure option" where
  "check_code params = (if Get params ''code'' = [] then Some MissingCode else None)"

definition check_state :: "string \<Rightarrow> Values \<Rightarrow> failure option" where
  "check_state expectedState params =
     (if Get params ''state'' = expectedState then None else Some StateMismatch)"

fun first_failure :: "failure option list \<Rightarrow> failure option" where
  "first_failure [] = None"
| "first_failure (Some f # cs) = Some f"
| "first_failure (None # cs) = first_failure cs"

fun failure_error :: "failure \<Rightarrow> 'x error" where
  "failure_error (AuthorizationDenied e) = New (''spotify: auth failed - '' @ e)"
| "failure_error MissingCode = New ''spotify: didn't get access code''"
| "failure_error StateMismatch = New ''spotify: redirect state parameter doesn't match''"

definition CompleteAuth ::
  "('w, 'x, 'tok) round_trip \<Rightarrow> Authenticator \<Rightarrow> string \<Rightarrow> Values \<Rightarrow> 'w Network
     \<Rightarrow> ('x error + 'tok) \<times> 'w Network" where
  "CompleteAuth post a expectedState params net =
     (case first_failure
             [check_error params, check_code params, check_state expectedState params] of
        Some f \<Rightarrow> (Inl (failure_error f), net)
      | None \<Rightarrow> Config_Exchange post (config a) (Get params ''code'') net)"

section \<open>An application, its provider and some callbacks\<close>

text \<open>
  The scenario of the specification: an application registered at
  \<open>https://app.example/cb\<close> that asks to read the user's library. The provider
  stub redeems the code \<open>ABC\<close> for the token \<open>T1\<close>, refuses every other code, and
  counts the round trips it has served.
\<close>

definition app_env :: Environ where
  "app_env = map_of [(''SPOTIFY_ID'', ''app-id''), (''SPOTIFY_SECRET'', ''app-secret'')]"

definition app_auth :: Authenticator where
  "app_auth = NewAuthenticator app_env ''https://app.example/cb'' [ScopeUserLibraryRead]"

definition provider :: "(nat, unit, string) round_trip" where
  "provider c code served =
     (if code = ''ABC'' then Inr ''T1'' else Inl (New ''invalid_grant''), Suc served)"

definition idle_net :: "nat Network" where
  "idle_net = \<lparr>requests = [], world = 0\<rparr>"

definition callback_granted :: Request where
  "callback_granted = \<lparr>Query = map_of [(''state'', [''xyz123'']), (''code'', [''ABC''])]\<rparr>"

definition callback_denied :: Request where
  "callback_denied =
     \<lparr>Query = map_of [(''error'', [''access_denied'']), (''state'', [''xyz123''])]\<rparr>"

definition callback_forged :: Request where
  "callback_forged = \<lparr>Query = map_of [(''state'', [''forged'']), (''code'', [''ABC''])]\<rparr>"

definition callback_state_only :: Request where
  "callback_state_only = \<lparr>Query = map_of [(''state'', [''forged''])]\<rparr>"

definition callback_code_only :: Request where
  "callback_code_only = \<lparr>Query = map_of [(''code'', [''ABC''])]\<rparr>"

text \<open>
  The query \<open>error=&error=access_denied&code=ABC&state=xyz123\<close>: the \<open>error\<close>
  parameter is given twice, the first time empty.
\<close>

definition callback_error_twice :: Request where
  "callback_error_twice =
     \<lparr>Query = map_of [(''error'', [[], ''access_denied'']),
                       (''code'', [''ABC'']),
                       (''state'', [''xyz123''])]\<rparr>"

section \<open>Properties\<close>

subsection \<open>Reading the query and calling the library\<close>

lemma Get_absent: "v key = None \<Longrightarrow> Get v key = []"
  by (simp add: Get_def)

lemma Get_first: "v key = Some (x # xs) \<Longrightarrow> Get v key = x"
  by (simp add: Get_def)

lemma Get_nonempty_iff:
  "Get v key \<noteq> [] \<longleftrightarrow> (\<exists>x xs. v key = Some (x # xs) \<and> x \<noteq> [])"
  by (auto simp: Get_def split: option.splits list.splits)

lemma Token_unfold:
  "Token post a state r net =
     (if Get (Query r) ''error'' \<noteq> []
      then (Inl (New (''spotify: auth failed - '' @ Get (Query r) ''error'')), net)
      else if Get (Query r) ''code'' = []
      then (Inl (New ''spotify: didn't get access code''), net)
      else if Get (Query r) ''state'' \<noteq> state
      then (Inl (New ''spotify: redirect state parameter doesn't match''), net)
      else Config_Exchange post (config a) (Get (Query r) ''code'') net)"
  by (simp add: Token_def Let_def)

lemma Config_Exchange_result:
  "fst (Config_Exchange post c code net) = fst (post c code (world net))"
  by (simp add: Config_Exchange_def split: prod.split)

lemma Config_Exchange_requests:
  "requests (snd (Config_Exchange post c code net)) = requests net @ [(c, code)]"
  by (simp add: Config_Exchange_def split: prod.split)

lemma Config_Exchange_world:
  "world (snd (Config_Exchange post c code net)) = snd (post c code (world net))"
  by (simp add: Config_Exchange_def split: prod.split)

text \<open>
  An exchange is always one more request on the network, so a network that
  comes back as it was has seen no exchange.
\<close>

lemma Config_Exchange_changes_net: "snd (Config_Exchange post c code net) \<noteq> net"
proof
  assume "snd (Config_Exchange post c code net) = net"
  then have "requests (snd (Config_Exchange post c code net)) = requests net"
    by simp
  then show False
    by (simp add: Config_Exchange_requests)
qed

text \<open>
  \<open>first_failure\<close> is the first failure of a list of checks: it passes over the
  checks that succeed, stops at the first that fails, and finds none exactly
  when every check succeeds.
\<close>

lemma first_failure_first: "first_failure (replicate n None @ Some f # cs) = Some f"
  by (induction n) simp_all

lemma first_failure_None_iff: "first_failure cs = None \<longleftrightarrow> (\<forall>c \<in> set cs. c = None)"
  by (induction cs rule: first_failure.induct) simp_all

lemma failure_error_inj: "failure_error f = (failure_error g :: 'x error) \<longleftrightarrow> f = g"
  by (cases f; cases g) simp_all

text \<open>
  \<open>Join\<close> is the concatenation of the strings with the separator ahead of
  every string but the first.
\<close>

lemma Join_concat: "Join (x # xs) sep = x @ concat (map ((@) sep) xs)"
  by (induction xs arbitrary: x) simp_all

lemma fixed_endpoints_NewAuthenticator:
  "fixed_endpoints (NewAuthenticator env redirectURL scopes)"
  by (simp add: fixed_endpoints_def NewAuthenticator_def)

lemma fixed_endpoints_SetAuthInfo:
  "fixed_endpoints (SetAuthInfo a clientID secretKey) = fixed_endpoints a"
  by (simp add: fixed_endpoints_def SetAuthInfo_def)

lemma NewAuthenticator_no_environment:
  "ClientID (config (NewAuthenticator Map.empty redirectURL scopes)) = []
   \<and> ClientSecret (config (NewAuthenticator Map.empty redirectURL scopes)) = []"
  by (simp add: NewAuthenticator_def Getenv_def)

subsection \<open>The callback\<close>

text \<open>
  Throughout, the value of a query parameter is what \<open>Get\<close> reads for its key:
  the first value listed, and the empty string for a key that is absent.
\<close>

text \<open>
  Claim C1, as amended. When the \<open>state\<close> of the callback, read as the empty
  string when the parameter is missing, is not the expected state, \<open>Token\<close>
  fails and leaves the network as it was, so no exchange was requested. The
  error is that of the first check that fails: the authorization-denied error
  when the callback carries a provider error, else the missing-code error when
  it carries no code, else the state-mismatch error.
\<close>

theorem Token_state_mismatch:
  assumes "Get (Query r) ''state'' \<noteq> state"
  shows "Token post a state r net
           = (Inl (if Get (Query r) ''error'' \<noteq> []
                   then New (''spotify: auth failed - '' @ Get (Query r) ''error'')
                   else if Get (Query r) ''code'' = []
                   then New ''spotify: didn't get access code''
                   else New ''spotify: redirect state parameter doesn't match''),
              net)"
  using assms by (simp add: Token_unfold)

text \<open>
  A forged state, and a missing state where one is expected: both fail with the
  state-mismatch error, since a code is there and no provider error is.
\<close>

theorem Token_state_mismatch_witness:
  "Get (Query callback_forged) ''state'' \<noteq> ''xyz123''
   \<and> Token provider app_auth ''xyz123'' callback_forged idle_net
       = (Inl (New ''spotify: redirect state parameter doesn't match''), idle_net)
   \<and> Query callback_code_only ''state'' = None
   \<and> Get (Query callback_code_only) ''state'' \<noteq> ''xyz123''
   \<and> Token provider app_auth ''xyz123'' callback_code_only idle_net
       = (Inl (New ''spotify: redirect state parameter doesn't match''), idle_net)"
  using
    Token_state_mismatch
      [where r = callback_forged and state = "''xyz123''" and post = provider
         and a = app_auth and net = idle_net]
    Token_state_mismatch
      [where r = callback_code_only and state = "''xyz123''" and post = provider
         and a = app_auth and net = idle_net]
  by (simp add: callback_forged_def callback_code_only_def Get_def)

text \<open>
  As first worded, the claim asks for the state-mismatch error at every callback
  with a wrong state, a missing state counting as wrong for every expected
  state. A callback that carries a wrong state and no code fails the check for
  the code first; and a callback without a state, when the expected state is
  the empty string, does not fail at all: its code is exchanged.
\<close>

theorem Token_state_mismatch_counterexample:
  "Get (Query callback_state_only) ''state'' \<noteq> ''xyz123''
   \<and> fst (Token provider app_auth ''xyz123'' callback_state_only idle_net)
       = Inl (New ''spotify: didn't get access code'')
   \<and> fst (Token provider app_auth ''xyz123'' callback_state_only idle_net)
       \<noteq> Inl (New ''spotify: redirect state parameter doesn't match'')
   \<and> Query callback_code_only ''state'' = None
   \<and> fst (Token provider app_auth [] callback_code_only idle_net) = Inr ''T1''
   \<and> requests (snd (Token provider app_auth [] callback_code_only idle_net))
       = [(config app_auth, ''ABC'')]"
  by (simp add: Token_unfold callback_state_only_def callback_code_only_def Get_def
      Config_Exchange_def provider_def idle_net_def)

text \<open>
  Claim C2. \<open>Token\<close> is the algorithm of the specification: the check for a
  provider error, then the check for the code, then the check of the state,
  the first failure in that order being the one reported, and the exchange only
  when no check fails.
\<close>

theorem Token_refines_CompleteAuth:
  "Token post a state r net = CompleteAuth post a state (Query r) net"
  by (simp add: Token_unfold CompleteAuth_def check_error_def check_code_def check_state_def)

text \<open>
  Claim C3, as amended. When the first value of the \<open>error\<close> parameter of the
  callback, the one that \<open>Get\<close> reads, is not empty, \<open>Token\<close> fails with the
  authorization-denied error, whose message ends with that value, the
  provider's error string, and the network is left as it was: no exchange was
  requested.
\<close>

theorem Token_provider_error:
  assumes "Get (Query r) ''error'' \<noteq> []"
  shows "Token post a state r net
           = (Inl (New (''spotify: auth failed - '' @ Get (Query r) ''error'')), net)"
  using assms by (simp add: Token_unfold)

theorem Token_provider_error_witness:
  "Get (Query callback_denied) ''error'' \<noteq> []
   \<and> Token provider app_auth ''xyz123'' callback_denied idle_net
       = (Inl (New ''spotify: auth failed - access_denied''), idle_net)"
  using Token_provider_error
    [where r = callback_denied and state = "''xyz123''" and post = provider
       and a = app_auth and net = idle_net]
  by (simp add: callback_denied_def Get_def)

text \<open>
  As first worded, the claim is for every callback whose query contains a value
  of \<open>error\<close> that is not empty. Where the parameter is given twice and is empty
  the first time, the query contains \<open>access_denied\<close>, and yet the code is
  exchanged for a token.
\<close>

theorem Token_provider_error_counterexample:
  "Query callback_error_twice ''error'' = Some [[], ''access_denied'']
   \<and> fst (Token provider app_auth ''xyz123'' callback_error_twice idle_net) = Inr ''T1''
   \<and> requests (snd (Token provider app_auth ''xyz123'' callback_error_twice idle_net))
       = [(config app_auth, ''ABC'')]"
  by (simp add: Token_unfold callback_error_twice_def Get_def Config_Exchange_def
      provider_def idle_net_def)

text \<open>
  Claim C4, as amended. When the \<open>code\<close> parameter of the callback is empty or
  absent and the callback carries no provider error, \<open>Token\<close> fails with the
  missing-code error.
\<close>

theorem Token_missing_code:
  assumes "Get (Query r) ''code'' = []"
    and "Get (Query r) ''error'' = []"
  shows "Token post a state r net = (Inl (New ''spotify: didn't get access code''), net)"
  using assms by (simp add: Token_unfold)

theorem Token_missing_code_witness:
  "Get (Query callback_state_only) ''code'' = []
   \<and> Get (Query callback_state_only) ''error'' = []
   \<and> Token provider app_auth ''forged'' callback_state_only idle_net
       = (Inl (New ''spotify: didn't get access code''), idle_net)"
  using Token_missing_code
    [where r = callback_state_only and state = "''forged''" and post = provider
       and a = app_auth and net = idle_net]
  by (simp add: callback_state_only_def Get_def)

text \<open>
  As first worded, the claim asks for the missing-code error at every callback
  without a code. The callback of a refused authorization has no code, and it
  fails with the provider's error.
\<close>

theorem Token_missing_code_counterexample:
  "Get (Query callback_denied) ''code'' = []
   \<and> fst (Token provider app_auth ''xyz123'' callback_denied idle_net)
       = Inl (New ''spotify: auth failed - access_denied'')
   \<and> fst (Token provider app_auth ''xyz123'' callback_denied idle_net)
       \<noteq> Inl (New ''spotify: didn't get access code'')"
  by (simp add: Token_unfold callback_denied_def Get_def)

text \<open>
  Claim C9. When the callback carries a code, the expected state and no
  provider error, \<open>Token\<close> is the library's exchange of that code with the
  stored configuration, and what it returns is what the round trip returned,
  a token or an error, as it is.
\<close>

theorem Token_returns_exchange_result:
  assumes "Get (Query r) ''error'' = []"
    and "Get (Query r) ''code'' \<noteq> []"
    and "Get (Query r) ''state'' = state"
  shows "Token post a state r net
           = Config_Exchange post (config a) (Get (Query r) ''code'') net
         \<and> fst (Token post a state r net)
             = fst (post (config a) (Get (Query r) ''code'') (world net))"
  using assms by (simp add: Token_unfold Config_Exchange_result)

theorem Token_returns_exchange_result_witness:
  "Get (Query callback_granted) ''error'' = []
   \<and> Get (Query callback_granted) ''code'' \<noteq> []
   \<and> Get (Query callback_granted) ''state'' = ''xyz123''
   \<and> fst (provider (config app_auth) ''ABC'' (world idle_net)) = Inr ''T1''
   \<and> fst (Token provider app_auth ''xyz123'' callback_granted idle_net) = Inr ''T1''"
proof -
  have checks:
    "Get (Query callback_granted) ''error'' = []"
    "Get (Query callback_granted) ''code'' \<noteq> []"
    "Get (Query callback_granted) ''state'' = ''xyz123''"
    by (simp_all add: callback_granted_def Get_def)
  have code: "Get (Query callback_granted) ''code'' = ''ABC''"
    by (simp add: callback_granted_def Get_def)
  have answer: "fst (provider (config app_auth) ''ABC'' (world idle_net)) = Inr ''T1''"
    by (simp add: provider_def)
  from Token_returns_exchange_result [OF checks, of provider app_auth idle_net]
  have "fst (Token provider app_auth ''xyz123'' callback_granted idle_net)
          = fst (provider (config app_auth)
                   (Get (Query callback_granted) ''code'') (world idle_net))"
    by (rule conjunct2)
  then have "fst (Token provider app_auth ''xyz123'' callback_granted idle_net) = Inr ''T1''"
    by (simp only: code answer)
  with checks answer show ?thesis
    by simp
qed

text \<open>
  Claim C10. A callback with a code, no \<open>error\<close> parameter and no \<open>state\<close>
  parameter passes the check of the state when the expected state is the empty
  string, and \<open>Token\<close> goes on to the exchange: the network has one more request,
  for that code.
\<close>

theorem Token_empty_state_passes:
  assumes "Query r ''error'' = None"
    and "Query r ''state'' = None"
    and "Get (Query r) ''code'' \<noteq> []"
  shows "Token post a [] r net
           = Config_Exchange post (config a) (Get (Query r) ''code'') net
         \<and> requests (snd (Token post a [] r net))
             = requests net @ [(config a, Get (Query r) ''code'')]"
  using assms by (simp add: Token_unfold Get_absent Config_Exchange_requests)

theorem Token_empty_state_passes_witness:
  "Query callback_code_only ''error'' = None
   \<and> Query callback_code_only ''state'' = None
   \<and> Get (Query callback_code_only) ''code'' \<noteq> []
   \<and> requests (snd (Token provider app_auth [] callback_code_only idle_net))
       = [(config app_auth, ''ABC'')]
   \<and> fst (Token provider app_auth [] callback_code_only idle_net) = Inr ''T1''"
  using Token_empty_state_passes
    [where r = callback_code_only and post = provider and a = app_auth and net = idle_net]
  by (simp add: callback_code_only_def Get_def idle_net_def Config_Exchange_def provider_def)

subsection \<open>The exchange\<close>

text \<open>
  Claim C8. \<open>Exchange\<close> on a code is the last step of \<open>Token\<close> on a callback
  that passes the three checks with that code: same result, same effect on the
  network. The result is what the library's round trip gives for the stored
  configuration and the code, and the request recorded on the network carries
  that configuration, with its credentials; its token endpoint is \<open>TokenURL\<close>
  for an Authenticator with the fixed endpoints, as \<open>NewAuthenticator\<close> makes
  them.
\<close>

theorem Exchange_is_last_step_of_Token:
  assumes "Get (Query r) ''error'' = []"
    and "Get (Query r) ''code'' = code"
    and "code \<noteq> []"
    and "Get (Query r) ''state'' = state"
  shows "Exchange post a code net = Token post a state r net
         \<and> fst (Exchange post a code net) = fst (post (config a) code (world net))
         \<and> last (requests (snd (Exchange post a code net))) = (config a, code)
         \<and> (fixed_endpoints a \<longrightarrow>
              Endpoint_TokenURL
                (Endpoint (fst (last (requests (snd (Exchange post a code net))))))
                = TokenURL)"
  using assms
  by (simp add: Token_unfold Exchange_def Config_Exchange_result Config_Exchange_requests
      fixed_endpoints_def)

theorem Exchange_is_last_step_of_Token_witness:
  "Get (Query callback_granted) ''error'' = []
   \<and> Get (Query callback_granted) ''code'' = ''ABC''
   \<and> Get (Query callback_granted) ''state'' = ''xyz123''
   \<and> fixed_endpoints (SetAuthInfo app_auth ''id'' ''key'')
   \<and> Exchange provider (SetAuthInfo app_auth ''id'' ''key'') ''ABC'' idle_net
       = Token provider (SetAuthInfo app_auth ''id'' ''key'') ''xyz123'' callback_granted idle_net
   \<and> fst (Exchange provider (SetAuthInfo app_auth ''id'' ''key'') ''ABC'' idle_net) = Inr ''T1''
   \<and> Endpoint_TokenURL
       (Endpoint (fst (last (requests
          (snd (Exchange provider (SetAuthInfo app_auth ''id'' ''key'') ''ABC'' idle_net))))))
       = TokenURL"
proof -
  have checks:
    "Get (Query callback_granted) ''error'' = []"
    "Get (Query callback_granted) ''code'' = ''ABC''"
    "''ABC'' \<noteq> []"
    "Get (Query callback_granted) ''state'' = ''xyz123''"
    by (simp_all add: callback_granted_def Get_def)
  have fixed: "fixed_endpoints (SetAuthInfo app_auth ''id'' ''key'')"
    by (simp add: app_auth_def fixed_endpoints_SetAuthInfo fixed_endpoints_NewAuthenticator)
  have answer:
    "fst (provider (config (SetAuthInfo app_auth ''id'' ''key'')) ''ABC'' (world idle_net))
       = Inr ''T1''"
    by (simp add: provider_def)
  from Exchange_is_last_step_of_Token
    [OF checks, of provider "SetAuthInfo app_auth ''id'' ''key''" idle_net]
  have same:
    "Exchange provider (SetAuthInfo app_auth ''id'' ''key'') ''ABC'' idle_net
       = Token provider (SetAuthInfo app_auth ''id'' ''key'') ''xyz123'' callback_granted idle_net"
    and result:
    "fst (Exchange provider (SetAuthInfo app_auth ''id'' ''key'') ''ABC'' idle_net)
       = fst (provider (config (SetAuthInfo app_auth ''id'' ''key'')) ''ABC'' (world idle_net))"
    and endpoint:
    "fixed_endpoints (SetAuthInfo app_auth ''id'' ''key'') \<longrightarrow>
       Endpoint_TokenURL
         (Endpoint (fst (last (requests
            (snd (Exchange provider (SetAuthInfo app_auth ''id'' ''key'') ''ABC'' idle_net))))))
         = TokenURL"
    by blast+
  from result answer
  have "fst (Exchange provider (SetAuthInfo app_auth ''id'' ''key'') ''ABC'' idle_net)
          = Inr ''T1''"
    by (simp only:)
  with checks fixed same endpoint show ?thesis
    by blast
qed

subsection \<open>The login URL\<close>

text \<open>
  The scenario of the specification, with a second scope: the scopes are in
  one parameter, with a space between them.
\<close>

lemma AuthURL_two_scopes:
  "Authenticator_AuthURL
     (NewAuthenticator app_env ''https://app.example/cb''
        [ScopeUserLibraryRead, ScopeUserReadEmail])
     ''xyz123''
   = \<lparr>url_endpoint = ''https://accounts.spotify.com/authorize'',
      url_query =
        [(''redirect_uri'', ''https://app.example/cb''),
         (''scope'', ''user-library-read user-read-email''),
         (''state'', ''xyz123''),
         (''client_id'', ''app-id'')]\<rparr>"
  by (simp add: Authenticator_AuthURL_def Config_AuthCodeURL_def NewAuthenticator_def
      app_env_def Getenv_def AuthURL_def ScopeUserLibraryRead_def ScopeUserReadEmail_def)

text \<open>
  Claim C5. For every redirect URL, list of scopes and state, a call of
  \<open>AuthURL\<close> on the Authenticator made from them returns the network as it was,
  and a URL that is the same on every network. The URL points at the fixed
  authorization endpoint. Its query parameters are exactly \<open>client_id\<close>,
  \<open>redirect_uri\<close>, \<open>scope\<close> and \<open>state\<close>, each of them once, and their values
  are the configured client identifier, the redirect URL, the scopes
  concatenated (with a space ahead of every scope but the first), and the
  given state.
\<close>

theorem AuthURL_parameters:
  "AuthURL_call (NewAuthenticator env redirectURL scopes) state net
     = (Authenticator_AuthURL (NewAuthenticator env redirectURL scopes) state, net)
   \<and> url_endpoint (Authenticator_AuthURL (NewAuthenticator env redirectURL scopes) state)
       = AuthURL
   \<and> distinct
       (map fst (url_query (Authenticator_AuthURL (NewAuthenticator env redirectURL scopes) state)))
   \<and> set (map fst
         (url_query (Authenticator_AuthURL (NewAuthenticator env redirectURL scopes) state)))
       = {''client_id'', ''redirect_uri'', ''scope'', ''state''}
   \<and> map_of (url_query (Authenticator_AuthURL (NewAuthenticator env redirectURL scopes) state))
       ''client_id'' = Some (Getenv env ''SPOTIFY_ID'')
   \<and> map_of (url_query (Authenticator_AuthURL (NewAuthenticator env redirectURL scopes) state))
       ''redirect_uri'' = Some redirectURL
   \<and> map_of (url_query (Authenticator_AuthURL (NewAuthenticator env redirectURL scopes) state))
       ''scope''
       = Some (case scopes of [] \<Rightarrow> [] | s # ss \<Rightarrow> s @ concat (map ((@) '' '') ss))
   \<and> map_of (url_query (Authenticator_AuthURL (NewAuthenticator env redirectURL scopes) state))
       ''state'' = Some state"
proof -
  have scope:
    "Join scopes '' '' = (case scopes of [] \<Rightarrow> [] | s # ss \<Rightarrow> s @ concat (map ((@) '' '') ss))"
    by (cases scopes) (simp_all only: Join.simps(1) Join_concat list.case)
  have query:
    "url_query (Authenticator_AuthURL (NewAuthenticator env redirectURL scopes) state)
       = [(''redirect_uri'', redirectURL),
          (''scope'', Join scopes '' ''),
          (''state'', state),
          (''client_id'', Getenv env ''SPOTIFY_ID'')]"
    by (simp add: Authenticator_AuthURL_def Config_AuthCodeURL_def NewAuthenticator_def)
  have endpoint:
    "url_endpoint (Authenticator_AuthURL (NewAuthenticator env redirectURL scopes) state)
       = AuthURL"
    by (simp add: Authenticator_AuthURL_def Config_AuthCodeURL_def NewAuthenticator_def)
  have keys:
    "set (map fst
       [(''redirect_uri'', redirectURL),
        (''scope'', Join scopes '' ''),
        (''state'', state),
        (''client_id'', Getenv env ''SPOTIFY_ID'')])
     = {''client_id'', ''redirect_uri'', ''scope'', ''state''}"
    by auto
  show ?thesis
    unfolding query endpoint keys
    by (simp add: AuthURL_call_def scope)
qed

text \<open>
  Claim C6. After \<open>SetAuthInfo\<close>, the \<open>client_id\<close> parameter of the URL that
  \<open>AuthURL\<close> returns is the identifier that was set.
\<close>

theorem AuthURL_after_SetAuthInfo:
  "map_of (url_query (Authenticator_AuthURL (SetAuthInfo a clientID secretKey) state))
     ''client_id'' = Some clientID"
  by (simp add: Authenticator_AuthURL_def Config_AuthCodeURL_def SetAuthInfo_def)

subsection \<open>The credentials\<close>

text \<open>
  Claim C7. \<open>SetAuthInfo\<close> overwrites the client identifier and the client secret
  and nothing else: the redirect URL, the scopes and the two endpoint URLs of
  the Authenticator are the same afterwards.
\<close>

theorem SetAuthInfo_frame:
  "ClientID (config (SetAuthInfo a clientID secretKey)) = clientID
   \<and> ClientSecret (config (SetAuthInfo a clientID secretKey)) = secretKey
   \<and> RedirectURL (config (SetAuthInfo a clientID secretKey)) = RedirectURL (config a)
   \<and> Scopes (config (SetAuthInfo a clientID secretKey)) = Scopes (config a)
   \<and> Endpoint_AuthURL (Endpoint (config (SetAuthInfo a clientID secretKey)))
       = Endpoint_AuthURL (Endpoint (config a))
   \<and> Endpoint_TokenURL (Endpoint (config (SetAuthInfo a clientID secretKey)))
       = Endpoint_TokenURL (Endpoint (config a))"
  by (simp add: SetAuthInfo_def)

end
